theory Spec2Isabelle
  imports Main "HOL-Library.Word" "HOL-Library.Char_ord" "HOL-Library.List_Lexorder"
begin

section \<open>The Kafka log writer (src/KafkaWriter.cc)\<close>

text \<open>
  A shallow embedding of the class \<open>KafkaWriter\<close>: a log-writer backend of the Bro
  network monitor that sends every log record to a Kafka topic through librdkafka.
  The instance is a record that every method takes and returns; the host's script-level
  constants (\<open>BifConst::Kafka::*\<close>) are a second record that each method receives in
  the state it has at the time of the call; librdkafka and the host's formatter are
  parameters.
\<close>

subsection \<open>Pointers\<close>

text \<open>
  The members \<open>formatter\<close>, \<open>producer\<close> and \<open>topic\<close> are raw C++ pointers. A
  pointer is null, points to a live object, or dangles: after \<open>delete\<close>, which does
  not reset it, or because it was never initialised. Dereferencing anything but a live
  pointer and deleting a dangling pointer are faults; \<open>delete\<close> on a null pointer
  does nothing.
\<close>

datatype 'a ptr = Null | Live 'a | Dangling

datatype fault = NullDeref | UseAfterFree | DoubleFree

fun deref :: "'a ptr \<Rightarrow> fault + 'a" where
  "deref Null = Inl NullDeref"
| "deref (Live x) = Inr x"
| "deref Dangling = Inl UseAfterFree"

fun delete :: "'a ptr \<Rightarrow> fault + 'a ptr" where
  "delete Null = Inr Null"
| "delete (Live x) = Inr Dangling"
| "delete Dangling = Inl DoubleFree"

fun is_live :: "'a ptr \<Rightarrow> bool" where
  "is_live (Live x) = True"
| "is_live Null = False"
| "is_live Dangling = False"

subsection \<open>The host: script-level constants, messages, formatters\<close>

text \<open>
  \<open>BifConst::Kafka\<close>, the shared store of the user's settings. The table
  \<open>kafka_conf\<close> is listed in the order in which the host's table iteration yields its
  entries. \<open>max_wait_on_shutdown\<close> is a script-level count.
\<close>

record BifConst =
  Kafka_tag_json :: bool
  Kafka_topic_name :: string
  Kafka_kafka_conf :: "(string \<times> string) list"
  Kafka_debug :: string
  Kafka_max_wait_on_shutdown :: int

text \<open>
  A \<open>const char*\<close> is read as a C string: the bytes before the first NUL byte at the
  pointer. \<open>c_str\<close> is what such a read gives for a buffer with the bytes \<open>s\<close>
  followed by a NUL byte; it is also what a \<open>std::string\<close> made from the pointer holds.
\<close>

definition NUL :: char where
  "NUL = CHR 0x00"

definition c_str :: "string \<Rightarrow> string" where
  "c_str s = takeWhile (\<lambda>c. c \<noteq> NUL) s"

text \<open>
  \<open>Fmt\<close> is the host's printf; a message is kept as the format string with its
  arguments, under the channel (\<open>MsgThread::Info\<close> or \<open>Error\<close>) it is sent on.
  A string argument is passed as \<open>c_str()\<close> and \<open>%s\<close> prints it as a C string. The
  debug string is copied from the store byte for byte and may hold NUL bytes, so its
  argument is written with \<open>c_str\<close>; the keys and values that the constructor puts into
  the map and the texts that the library returns are C strings as they are.
\<close>

datatype fmt_arg = Str string | Dec int

datatype message = Info string "fmt_arg list" | Error string "fmt_arg list"

datatype ts_format = TS_EPOCH

datatype formatter = JSON ts_format | TaggedJSON string ts_format

record WriterInfo =
  path :: string

subsection \<open>librdkafka\<close>

text \<open>
  The broker client library, as the writer uses it. \<open>'c\<close> is a configuration object,
  \<open>'p\<close> the state of a producer, \<open>'t\<close> a topic handle. A call that reports failure
  through its \<open>errstr\<close> argument returns \<open>Inl\<close> of that string; a rejected
  \<open>Conf::set\<close> leaves the configuration object as it was.
\<close>

datatype ConfType = CONF_GLOBAL | CONF_TOPIC

type_synonym ErrorCode = int

definition ERR_NO_ERROR :: ErrorCode where
  "ERR_NO_ERROR = 0"

record ('c, 'p, 't) RdKafka =
  Conf_create :: "ConfType \<Rightarrow> 'c"
  Conf_set :: "'c \<Rightarrow> string \<Rightarrow> string \<Rightarrow> string + 'c"
  Producer_create :: "'c \<Rightarrow> string + 'p"
  Topic_create :: "'p \<Rightarrow> string \<Rightarrow> 'c \<Rightarrow> string + 't"
  outq_len :: "'p \<Rightarrow> int"
  poll :: "'p \<Rightarrow> int \<Rightarrow> 'p"
  produce :: "'p \<Rightarrow> 't \<Rightarrow> string \<Rightarrow> ErrorCode \<times> 'p"
  err2str :: "ErrorCode \<Rightarrow> string"
  get_debug_contexts :: string

subsection \<open>The writer instance\<close>

text \<open>
  \<open>kafka_conf\<close> is a \<open>std::map<string, string>\<close>: its entries have distinct keys
  and are iterated in ascending key order, so it is kept as a key-sorted list.
  \<open>messages\<close> is what the instance has sent to the host's reporter so far.
\<close>

record ('c, 'p, 't) KafkaWriter =
  tag_json :: bool
  topic_name :: string
  kafka_conf :: "(string \<times> string) list"
  formatter :: "formatter ptr"
  producer :: "'p ptr"
  topic :: "'t ptr"
  conf :: "'c ptr"
  topic_conf :: "'c ptr"
  messages :: "message list"

text \<open>
  \<open>std::map::insert\<close>: the entry goes to its place in key order; an entry whose key
  is already present is not replaced.
\<close>

fun map_insert :: "string \<times> string \<Rightarrow> (string \<times> string) list \<Rightarrow> (string \<times> string) list" where
  "map_insert (k, v) [] = [(k, v)]"
| "map_insert (k, v) ((k', v') # m) =
     (if k < k' then (k, v) # (k', v') # m
      else if k = k' then (k', v') # m
      else (k', v') # map_insert (k, v) m)"

text \<open>
  The constructor: \<open>tag_json\<close> and the bytes of \<open>topic_name\<close> are copied from the
  shared store. Every key and value of the table \<open>kafka_conf\<close> is read through the
  host's \<open>CheckString\<close>, which returns a \<open>const char*\<close>: the parameter
  \<open>CheckString\<close> gives the bytes at that pointer, and the instance's strings hold them
  up to the first NUL. The three pointers of the initialiser list are null; \<open>conf\<close>
  and \<open>topic_conf\<close> are not initialised.
\<close>

definition KafkaWriter_new ::
  "(string \<Rightarrow> string) \<Rightarrow> BifConst \<Rightarrow> ('c, 'p, 't) KafkaWriter" where
  "KafkaWriter_new CheckString B =
     \<lparr> tag_json = Kafka_tag_json B,
       topic_name = Kafka_topic_name B,
       kafka_conf =
         foldl (\<lambda>m (k, v). map_insert (c_str (CheckString k), c_str (CheckString v)) m) []
           (Kafka_kafka_conf B),
       formatter = Null,
       producer = Null,
       topic = Null,
       conf = Dangling,
       topic_conf = Dangling,
       messages = [] \<rparr>"

subsection \<open>DoInit\<close>

text \<open>
  The loop over \<open>kafka_conf\<close>: each entry is applied to the configuration object; the
  first rejected entry ends the loop with its key, its value and the library's reason.
\<close>

fun apply_settings ::
  "('c, 'p, 't) RdKafka \<Rightarrow> 'c \<Rightarrow> (string \<times> string) list \<Rightarrow> 'c \<times> (string \<times> string \<times> string) option" where
  "apply_settings K c [] = (c, None)"
| "apply_settings K c ((key, val) # rest) =
     (case Conf_set K c key val of
        Inl err \<Rightarrow> (c, Some (key, val, err))
      | Inr c' \<Rightarrow> apply_settings K c' rest)"

definition Failed_to_set :: "string \<times> string \<times> string \<Rightarrow> message" where
  "Failed_to_set e =
     (case e of (key, val, err) \<Rightarrow>
        Error ''Failed to set '%s'='%s': %s'' [Str key, Str val, Str err])"

text \<open>
  \<open>DoInit\<close> returns its boolean result and the instance as the call leaves it. The
  tagging flag and the debug string are read from the shared store \<open>B\<close> as it is when
  \<open>DoInit\<close> runs.
\<close>

definition DoInit ::
  "('c, 'p, 't) RdKafka \<Rightarrow> BifConst \<Rightarrow> WriterInfo \<Rightarrow> ('c, 'p, 't) KafkaWriter
     \<Rightarrow> bool \<times> ('c, 'p, 't) KafkaWriter" where
  "DoInit K B info w =
     (let w1 = (if topic_name w = [] then w\<lparr>topic_name := path info\<rparr> else w);
          w2 = w1\<lparr>formatter :=
                    Live (if Kafka_tag_json B then TaggedJSON (path info) TS_EPOCH
                          else JSON TS_EPOCH)\<rparr>;
          debug = Kafka_debug B;
          is_debug = (debug \<noteq> []);
          w3 = w2\<lparr>messages := messages w2 @
                    [if is_debug
                     then Info ''Debug is turned on and set to: %s.  Available debug context: %s.''
                               [Str (c_str debug), Str (c_str (get_debug_contexts K))]
                     else Info ''Debug is turned off.'' []]\<rparr>
      in case apply_settings K (Conf_create K CONF_GLOBAL) (kafka_conf w3) of
           (c, Some e) \<Rightarrow>
             (False, w3\<lparr>conf := Live c, messages := messages w3 @ [Failed_to_set e]\<rparr>)
         | (c, None) \<Rightarrow>
             (case (if is_debug then Conf_set K c ''debug'' debug else Inr c) of
                Inl err \<Rightarrow>
                  (False, w3\<lparr>conf := Live c,
                             messages := messages w3 @
                               [Failed_to_set (''debug'', c_str debug, err)]\<rparr>)
              | Inr c' \<Rightarrow>
                  (case Producer_create K c' of
                     Inl err \<Rightarrow>
                       (False, w3\<lparr>conf := Live c', producer := Null,
                                  messages := messages w3 @
                                    [Error ''Failed to create producer: %s'' [Str err]]\<rparr>)
                   | Inr p \<Rightarrow>
                       (let tc = Conf_create K CONF_TOPIC;
                            w4 = w3\<lparr>conf := Live c', producer := Live p, topic_conf := Live tc\<rparr>
                        in case Topic_create K p (topic_name w4) tc of
                             Inl err \<Rightarrow>
                               (False, w4\<lparr>topic := Null,
                                          messages := messages w4 @
                                            [Error ''Failed to create topic handle: %s'' [Str err]]\<rparr>)
                           | Inr t \<Rightarrow>
                               (True, w4\<lparr>topic := Live t,
                                         messages := messages w4 @
                                           (if is_debug
                                            then [Info ''Successfully created producer.'' []]
                                            else [])\<rparr>)))))"

subsection \<open>DoFinish\<close>

text \<open>
  C++ \<open>int\<close> is a 32-bit two's-complement integer: \<open>+\<close> wraps and \<open><=\<close> compares
  the signed values.
\<close>

type_synonym c_int = "32 word"

definition poll_interval :: c_int where
  "poll_interval = 1000"

text \<open>
  The drain loop, from its locals \<open>waited\<close> and the state of the producer. The loop
  may run forever, so the result is an option: \<open>None\<close> is a loop that never exits;
  otherwise the producer and \<open>waited\<close> as the loop leaves them.
\<close>

partial_function (option) DoFinish_loop ::
  "('c, 'p, 't) RdKafka \<Rightarrow> c_int \<Rightarrow> 'p \<Rightarrow> c_int \<Rightarrow> ('p \<times> c_int) option" where
  "DoFinish_loop K max_wait p waited =
     (if 0 < outq_len K p \<and> waited \<le>s max_wait
      then DoFinish_loop K max_wait (poll K p (sint poll_interval)) (waited + poll_interval)
      else Some (p, waited))"

text \<open>
  \<open>DoFinish\<close> reads \<open>max_wait_on_shutdown\<close> from the shared store \<open>B\<close>, narrowed
  to \<open>int\<close>. The result is \<open>None\<close> when the loop never exits, a fault when a pointer
  cannot be used, and otherwise the boolean result with the instance after the three
  \<open>delete\<close>s.
\<close>

definition DoFinish ::
  "('c, 'p, 't) RdKafka \<Rightarrow> BifConst \<Rightarrow> ('c, 'p, 't) KafkaWriter
     \<Rightarrow> (fault + bool \<times> ('c, 'p, 't) KafkaWriter) option" where
  "DoFinish K B w =
     (case deref (producer w) of
        Inl f \<Rightarrow> Some (Inl f)
      | Inr p \<Rightarrow>
          (case DoFinish_loop K (word_of_int (Kafka_max_wait_on_shutdown B)) p 0 of
             None \<Rightarrow> None
           | Some (p', waited) \<Rightarrow>
               (let success = (outq_len K p' = 0);
                    w1 = w\<lparr>producer := Live p',
                           messages := messages w @
                             (if success then []
                              else [Error ''Unable to deliver %0d message(s)''
                                          [Dec (outq_len K p')]])\<rparr>
                in case delete (topic w1) of
                     Inl f \<Rightarrow> Some (Inl f)
                   | Inr t' \<Rightarrow>
                       (case delete (producer w1) of
                          Inl f \<Rightarrow> Some (Inl f)
                        | Inr p'' \<Rightarrow>
                            (case delete (formatter w1) of
                               Inl f \<Rightarrow> Some (Inl f)
                             | Inr f' \<Rightarrow>
                                 Some (Inr (success,
                                   w1\<lparr>topic := t', producer := p'', formatter := f'\<rparr>)))))))"

subsection \<open>DoWrite\<close>

text \<open>
  \<open>strlen\<close>: the number of bytes before the first NUL byte.
\<close>

definition strlen :: "string \<Rightarrow> nat" where
  "strlen raw = length (takeWhile (\<lambda>c. c \<noteq> NUL) raw)"

text \<open>
  The formatter's \<open>Describe\<close> is the parameter \<open>D\<close>: the bytes it writes into the
  cleared buffer for the record \<open>vals\<close>. The host's buffer keeps one NUL byte after
  its contents, so the memory at \<open>raw\<close> is these bytes and that NUL. The message handed
  to \<open>produce\<close> is the first \<open>strlen raw\<close> bytes at \<open>raw\<close>; partition, copy flag
  and the absent key are constants of the call and left out.
\<close>

definition DoWrite ::
  "('c, 'p, 't) RdKafka \<Rightarrow> (formatter \<Rightarrow> 'r \<Rightarrow> string) \<Rightarrow> ('c, 'p, 't) KafkaWriter \<Rightarrow> 'r
     \<Rightarrow> fault + bool \<times> ('c, 'p, 't) KafkaWriter" where
  "DoWrite K D w vals =
     (case deref (formatter w) of
        Inl f \<Rightarrow> Inl f
      | Inr fm \<Rightarrow>
          (let raw = D fm vals @ [NUL] in
           case deref (producer w) of
             Inl f \<Rightarrow> Inl f
           | Inr p \<Rightarrow>
               (case deref (topic w) of
                  Inl f \<Rightarrow> Inl f
                | Inr t \<Rightarrow>
                    (case produce K p t (take (strlen raw) raw) of
                       (resp, p') \<Rightarrow>
                         if resp = ERR_NO_ERROR
                         then Inr (True, w\<lparr>producer := Live (poll K p' 0)\<rparr>)
                         else Inr (True, w\<lparr>producer := Live p',
                                          messages := messages w @
                                            [Error ''Kafka send failed: %s''
                                                   [Str (err2str K resp)]]\<rparr>)))))"

subsection \<open>DoSetBuf, DoFlush, DoRotate, DoHeartbeat\<close>

definition DoSetBuf :: "('c, 'p, 't) KafkaWriter \<Rightarrow> bool \<Rightarrow> bool \<times> ('c, 'p, 't) KafkaWriter" where
  "DoSetBuf w enabled = (True, w)"

definition DoFlush ::
  "('c, 'p, 't) RdKafka \<Rightarrow> ('c, 'p, 't) KafkaWriter \<Rightarrow> fault + bool \<times> ('c, 'p, 't) KafkaWriter" where
  "DoFlush K w =
     (case deref (producer w) of
        Inl f \<Rightarrow> Inl f
      | Inr p \<Rightarrow> Inr (True, w\<lparr>producer := Live (poll K p 0)\<rparr>))"

text \<open>\<open>FinishedRotation\<close> belongs to the host; its result is the parameter.\<close>

definition DoRotate :: "bool \<Rightarrow> ('c, 'p, 't) KafkaWriter \<Rightarrow> bool \<times> ('c, 'p, 't) KafkaWriter" where
  "DoRotate FinishedRotation w = (FinishedRotation, w)"

definition DoHeartbeat ::
  "('c, 'p, 't) RdKafka \<Rightarrow> ('c, 'p, 't) KafkaWriter \<Rightarrow> fault + bool \<times> ('c, 'p, 't) KafkaWriter" where
  "DoHeartbeat K w =
     (case deref (producer w) of
        Inl f \<Rightarrow> Inl f
      | Inr p \<Rightarrow> Inr (True, w\<lparr>producer := Live (poll K p 0)\<rparr>))"

subsection \<open>The host's calls between init and finish\<close>

text \<open>
  After \<open>DoInit\<close> the host's thread calls the other methods one at a time, in any
  order, until it calls \<open>DoFinish\<close>. A run stops at the first fault.
\<close>

datatype 'r call = Write 'r | SetBuf bool | Flush | Rotate bool | Heartbeat

fun host_call ::
  "('c, 'p, 't) RdKafka \<Rightarrow> (formatter \<Rightarrow> 'r \<Rightarrow> string) \<Rightarrow> ('c, 'p, 't) KafkaWriter \<Rightarrow> 'r call
     \<Rightarrow> fault + bool \<times> ('c, 'p, 't) KafkaWriter" where
  "host_call K D w (Write vals) = DoWrite K D w vals"
| "host_call K D w (SetBuf enabled) = Inr (DoSetBuf w enabled)"
| "host_call K D w Flush = DoFlush K w"
| "host_call K D w (Rotate fr) = Inr (DoRotate fr w)"
| "host_call K D w Heartbeat = DoHeartbeat K w"

fun host_calls ::
  "('c, 'p, 't) RdKafka \<Rightarrow> (formatter \<Rightarrow> 'r \<Rightarrow> string) \<Rightarrow> ('c, 'p, 't) KafkaWriter \<Rightarrow> 'r call list
     \<Rightarrow> fault + ('c, 'p, 't) KafkaWriter" where
  "host_calls K D w [] = Inr w"
| "host_calls K D w (c # cs) =
     (case host_call K D w c of
        Inl f \<Rightarrow> Inl f
      | Inr (r, w') \<Rightarrow> host_calls K D w' cs)"

subsection \<open>A small broker client for concrete runs\<close>

text \<open>
  A client whose producer state is the list of queued messages. It knows three
  configuration properties, refuses a topic with an empty name, queues at most two
  messages, and delivers one queued message per poll when \<open>drains\<close> holds and none
  otherwise.
\<close>

definition stub_kafka :: "bool \<Rightarrow> ((string \<times> string) list, string list, string) RdKafka" where
  "stub_kafka drains =
     \<lparr> Conf_create = (\<lambda>ty. []),
       Conf_set = (\<lambda>c key val.
         if key \<in> set [''bootstrap.servers'', ''client.id'', ''debug'']
         then Inr (c @ [(key, val)])
         else Inl ''No such configuration property''),
       Producer_create = (\<lambda>c. Inr []),
       Topic_create = (\<lambda>p name tc. if name = [] then Inl ''Invalid topic name'' else Inr name),
       outq_len = (\<lambda>p. int (length p)),
       poll = (\<lambda>p timeout_ms. if drains then drop 1 p else p),
       produce = (\<lambda>p t payload. if length p < 2 then (0, p @ [payload]) else (- 184, p)),
       err2str = (\<lambda>e. if e = 0 then ''Success'' else ''Local: Queue full''),
       get_debug_contexts = ''all,generic,broker,topic'' \<rparr>"

text \<open>A formatter for these runs: the record is its own JSON text; a tag goes in front.\<close>

definition stub_Describe :: "formatter \<Rightarrow> string \<Rightarrow> string" where
  "stub_Describe fm vals = (case fm of JSON ts \<Rightarrow> vals | TaggedJSON tag ts \<Rightarrow> tag @ vals)"

text \<open>The host's \<open>CheckString\<close>: a string with a NUL byte inside is replaced.\<close>

definition stub_CheckString :: "string \<Rightarrow> string" where
  "stub_CheckString s = (if NUL \<in> set s then ''<string-with-NUL>'' else s)"

definition stub_consts :: BifConst where
  "stub_consts =
     \<lparr> Kafka_tag_json = False,
       Kafka_topic_name = [],
       Kafka_kafka_conf = [(''client.id'', ''bro''), (''bootstrap.servers'', ''x'')],
       Kafka_debug = [],
       Kafka_max_wait_on_shutdown = 2000 \<rparr>"

text \<open>
  The instance that \<open>DoInit\<close> leaves for these constants and the stream path
  \<open>conn\<close>, with the messages \<open>q\<close> in the producer's queue.
\<close>

definition stub_writer ::
  "string list \<Rightarrow> ((string \<times> string) list, string list, string) KafkaWriter" where
  "stub_writer q =
     \<lparr> tag_json = False,
       topic_name = ''conn'',
       kafka_conf = [(''bootstrap.servers'', ''x''), (''client.id'', ''bro'')],
       formatter = Live (JSON TS_EPOCH),
       producer = Live q,
       topic = Live ''conn'',
       conf = Live [(''bootstrap.servers'', ''x''), (''client.id'', ''bro'')],
       topic_conf = Live [],
       messages = [Info ''Debug is turned off.'' []] \<rparr>"

section \<open>Properties\<close>

subsection \<open>Construction\<close>

text \<open>
  Insertion keeps the map sorted by key and adds the entry unless its key is there.
\<close>

lemma map_insert_keys: "fst ` set (map_insert (k, v) m) = insert k (fst ` set m)"
proof (induction m)
  case Nil
  then show ?case by simp
next
  case (Cons e m)
  obtain k' v' where e: "e = (k', v')" by (cases e)
  with Cons.IH show ?case by (simp add: insert_commute)
qed

lemma map_insert_sorted:
  assumes "sorted (map fst m)"
  shows "sorted (map fst (map_insert (k, v) m))"
  using assms
proof (induction m)
  case Nil
  then show ?case by simp
next
  case (Cons e m)
  obtain k' v' where e: "e = (k', v')" by (cases e)
  from Cons.prems e have below: "\<forall>x \<in> fst ` set m. k' \<le> x" and s: "sorted (map fst m)"
    by simp_all
  show ?case
  proof (cases "k < k'")
    case True
    with Cons.prems e show ?thesis by auto
  next
    case False
    show ?thesis
    proof (cases "k = k'")
      case True
      with Cons.prems e show ?thesis by simp
    next
      case ne: False
      with False have "k' \<le> k" by simp
      with below have "\<forall>x \<in> fst ` set (map_insert (k, v) m). k' \<le> x"
        unfolding map_insert_keys by simp
      with Cons.IH [OF s] False ne e show ?thesis by simp
    qed
  qed
qed

lemma map_insert_set:
  assumes "sorted (map fst m)"
  shows "set (map_insert (k, v) m) = (if k \<in> fst ` set m then set m else insert (k, v) (set m))"
  using assms
proof (induction m)
  case Nil
  then show ?case by simp
next
  case (Cons e m)
  obtain k' v' where e: "e = (k', v')" by (cases e)
  from Cons.prems e have below: "\<forall>x \<in> fst ` set m. k' \<le> x" and s: "sorted (map fst m)"
    by simp_all
  show ?case
  proof (cases "k < k'")
    case True
    with below have "k \<notin> fst ` set m" by auto
    moreover from True have "k \<noteq> k'" by simp
    ultimately show ?thesis using True e by simp
  next
    case False
    show ?thesis
    proof (cases "k = k'")
      case True
      then show ?thesis using e by simp
    next
      case ne: False
      with False e Cons.IH [OF s] show ?thesis by (simp add: insert_commute)
    qed
  qed
qed

lemma foldl_map_insert:
  assumes "distinct (map fst tbl)" and "fst ` set m \<inter> fst ` set tbl = {}"
    and "sorted (map fst m)"
  shows "set (foldl (\<lambda>m e. map_insert e m) m tbl) = set m \<union> set tbl
         \<and> sorted (map fst (foldl (\<lambda>m e. map_insert e m) m tbl))"
  using assms
proof (induction tbl arbitrary: m)
  case Nil
  then show ?case by simp
next
  case (Cons e tbl)
  obtain k v where e: "e = (k, v)" by (cases e)
  from Cons.prems e have fresh: "k \<notin> fst ` set m" by auto
  then have 1: "set (map_insert e m) = insert (k, v) (set m)"
    using Cons.prems(3) by (simp add: e map_insert_set)
  have 2: "fst ` set (map_insert e m) \<inter> fst ` set tbl = {}"
    using Cons.prems(1,2) e by (auto simp: map_insert_keys)
  have 3: "sorted (map fst (map_insert e m))"
    using Cons.prems(3) e by (simp add: map_insert_sorted)
  from Cons.prems have "distinct (map fst tbl)" by simp
  from Cons.IH [OF this 2 3] 1 e show ?case by simp
qed

text \<open>
  When the strings that the constructor reads have distinct keys, the instance's map
  holds exactly these entries, in key order. No string of the map has a NUL byte.
\<close>

lemma KafkaWriter_new_kafka_conf:
  assumes "distinct (map (\<lambda>e. c_str (CheckString (fst e))) (Kafka_kafka_conf B))"
  shows "set (kafka_conf (KafkaWriter_new CheckString B))
           = (\<lambda>e. (c_str (CheckString (fst e)), c_str (CheckString (snd e))))
               ` set (Kafka_kafka_conf B)
         \<and> sorted (map fst (kafka_conf (KafkaWriter_new CheckString B)))"
proof -
  let ?conv = "\<lambda>e. (c_str (CheckString (fst e)), c_str (CheckString (snd e)))"
  have eq: "kafka_conf (KafkaWriter_new CheckString B)
              = foldl (\<lambda>m e. map_insert e m) [] (map ?conv (Kafka_kafka_conf B))"
    by (simp add: KafkaWriter_new_def foldl_map case_prod_unfold)
  have "distinct (map fst (map ?conv (Kafka_kafka_conf B)))"
    using assms by (simp add: comp_def)
  from foldl_map_insert [OF this, of "[]"] show ?thesis
    unfolding eq by simp
qed

lemma map_insert_subset: "set (map_insert e m) \<subseteq> insert e (set m)"
proof (induction m)
  case Nil
  then show ?case by (cases e) simp
next
  case (Cons e' m)
  obtain k v where e: "e = (k, v)" by (cases e)
  obtain k' v' where e': "e' = (k', v')" by (cases e')
  from Cons.IH e e' show ?case by auto
qed

lemma foldl_map_insert_subset:
  "set (foldl (\<lambda>m e. map_insert e m) m tbl) \<subseteq> set m \<union> set tbl"
proof (induction tbl arbitrary: m)
  case Nil
  then show ?case by simp
next
  case (Cons e tbl)
  from Cons.IH [of "map_insert e m"] map_insert_subset [of e m] show ?case by auto
qed

lemma KafkaWriter_new_C_strings:
  assumes "(k, v) \<in> set (kafka_conf (KafkaWriter_new CheckString B))"
  shows "NUL \<notin> set k \<and> NUL \<notin> set v"
proof -
  let ?conv = "\<lambda>e. (c_str (CheckString (fst e)), c_str (CheckString (snd e)))"
  have eq: "kafka_conf (KafkaWriter_new CheckString B)
          = foldl (\<lambda>m e. map_insert e m) [] (map ?conv (Kafka_kafka_conf B))"
    by (simp add: KafkaWriter_new_def foldl_map case_prod_unfold)
  have "set (kafka_conf (KafkaWriter_new CheckString B)) \<subseteq> set (map ?conv (Kafka_kafka_conf B))"
    unfolding eq using foldl_map_insert_subset [of "[]" "map ?conv (Kafka_kafka_conf B)"]
    by simp
  with assms have "(k, v) \<in> set (map ?conv (Kafka_kafka_conf B))"
    by (rule subsetD [rotated])
  then obtain e where "k = c_str (CheckString (fst e))" "v = c_str (CheckString (snd e))"
    by auto
  moreover have "NUL \<notin> set (c_str x)" for x
    by (auto simp: c_str_def dest: set_takeWhileD)
  ultimately show ?thesis by simp
qed

lemma KafkaWriter_new_pointers:
  "formatter (KafkaWriter_new CheckString B) = Null
   \<and> producer (KafkaWriter_new CheckString B) = Null
   \<and> topic (KafkaWriter_new CheckString B) = Null"
  by (simp add: KafkaWriter_new_def)

subsection \<open>DoInit\<close>

lemma stub_DoInit:
  "DoInit (stub_kafka d) stub_consts \<lparr>path = ''conn''\<rparr>
     (KafkaWriter_new stub_CheckString stub_consts)
     = (True, stub_writer [])"
  by (simp add: DoInit_def KafkaWriter_new_def stub_CheckString_def c_str_def NUL_def
      stub_consts_def stub_kafka_def stub_writer_def Let_def)

lemma apply_settings_rejected:
  assumes "(key, val) \<in> set kvs" and "\<And>c. isl (Conf_set K c key val)"
  shows "\<exists>c' k v err. apply_settings K c kvs = (c', Some (k, v, err))
           \<and> (k, v) \<in> set kvs \<and> Conf_set K c' k v = Inl err"
  using assms(1)
proof (induction kvs arbitrary: c)
  case Nil
  then show ?case by simp
next
  case (Cons e kvs)
  obtain k v where e: "e = (k, v)" by (cases e)
  show ?case
  proof (cases "Conf_set K c k v")
    case (Inl err)
    then show ?thesis using e by simp
  next
    case (Inr c1)
    with assms(2) [of c] have "(key, val) \<noteq> (k, v)" by auto
    with Cons.prems e have "(key, val) \<in> set kvs" by auto
    from Cons.IH [OF this, of c1] Inr e show ?thesis by auto
  qed
qed

lemma DoInit_formatter:
  "formatter (snd (DoInit K B info w)) =
     Live (if Kafka_tag_json B then TaggedJSON (path info) TS_EPOCH else JSON TS_EPOCH)"
  unfolding DoInit_def Let_def
  by (simp split: prod.splits option.splits sum.splits)

lemma DoInit_settings_rejected:
  assumes "apply_settings K (Conf_create K CONF_GLOBAL) (kafka_conf w) = (c, Some e)"
  shows "fst (DoInit K B info w) = False"
    and "producer (snd (DoInit K B info w)) = producer w"
    and "topic (snd (DoInit K B info w)) = topic w"
    and "last (messages (snd (DoInit K B info w))) = Failed_to_set e"
  using assms unfolding DoInit_def Let_def by simp_all

text \<open>
  A successful \<open>DoInit\<close> leaves a live producer and a live topic handle; the topic
  handle is the one the library made for the producer and the resolved topic name.
\<close>

lemma DoInit_success:
  assumes "DoInit K B info w = (True, w')"
  shows "\<exists>p t. producer w' = Live p \<and> topic w' = Live t
           \<and> Topic_create K p (topic_name w') (Conf_create K CONF_TOPIC) = Inr t"
  using assms unfolding DoInit_def Let_def
  by (auto split: prod.splits option.splits sum.splits if_splits)

text \<open>
  C7: \<open>DoInit\<close> resolves the topic name: an empty \<open>topic_name\<close> becomes the path of
  the log stream (\<open>conn\<close> for the stream \<open>conn\<close>), a non-empty one stays as it is. This
  holds on every path through \<open>DoInit\<close>, whatever it returns.
\<close>

theorem DoInit_topic_name:
  "topic_name (snd (DoInit K B info w)) = (if topic_name w = [] then path info else topic_name w)"
  unfolding DoInit_def Let_def
  by (simp split: prod.splits option.splits sum.splits)

theorem DoInit_topic_name_witness:
  "topic_name (KafkaWriter_new stub_CheckString stub_consts
                :: ((string \<times> string) list, string list, string) KafkaWriter) = []
   \<and> topic_name (snd (DoInit (stub_kafka True) stub_consts \<lparr>path = ''conn''\<rparr>
                        (KafkaWriter_new stub_CheckString stub_consts))) = ''conn''"
  using DoInit_topic_name [of "stub_kafka True" stub_consts "\<lparr>path = ''conn''\<rparr>"
      "KafkaWriter_new stub_CheckString stub_consts"]
  by (simp add: KafkaWriter_new_def stub_CheckString_def c_str_def NUL_def stub_consts_def)

text \<open>
  C2: when the instance's map holds an entry that the library's configuration object
  rejects (in whatever state the object is), \<open>DoInit\<close> returns false, its last message is
  the error naming the key, the value and the library's reason of a rejected entry of the
  map, and the producer and topic pointers are what they were before the call (null for
  a new instance): no producer and no topic handle is made.
\<close>

theorem DoInit_rejected_setting:
  assumes "(key, val) \<in> set (kafka_conf w)" and "\<And>c. isl (Conf_set K c key val)"
  shows "\<exists>k v c err w'.
           DoInit K B info w = (False, w')
         \<and> (k, v) \<in> set (kafka_conf w) \<and> Conf_set K c k v = Inl err
         \<and> last (messages w') = Error ''Failed to set '%s'='%s': %s'' [Str k, Str v, Str err]
         \<and> producer w' = producer w \<and> topic w' = topic w"
proof -
  from apply_settings_rejected [OF assms, of "Conf_create K CONF_GLOBAL"]
  obtain c k v err where
    a: "apply_settings K (Conf_create K CONF_GLOBAL) (kafka_conf w) = (c, Some (k, v, err))"
    and kv: "(k, v) \<in> set (kafka_conf w)" and r: "Conf_set K c k v = Inl err"
    by blast
  have "DoInit K B info w = (False, snd (DoInit K B info w))"
    using DoInit_settings_rejected(1) [OF a, of B info] by (simp add: prod_eq_iff)
  with DoInit_settings_rejected(2-4) [OF a, of B info] kv r show ?thesis
    unfolding Failed_to_set_def
    by (intro exI [of _ k] exI [of _ v] exI [of _ c] exI [of _ err]
        exI [of _ "snd (DoInit K B info w)"]) simp
qed

theorem DoInit_rejected_setting_witness:
  "\<exists>k v c err w'.
     DoInit (stub_kafka True)
       (stub_consts\<lparr>Kafka_kafka_conf := [(''client.id'', ''bro''), (''no.such.property'', ''1'')]\<rparr>)
       \<lparr>path = ''conn''\<rparr>
       (KafkaWriter_new stub_CheckString
         (stub_consts\<lparr>Kafka_kafka_conf := [(''client.id'', ''bro''), (''no.such.property'', ''1'')]\<rparr>))
       = (False, w')
   \<and> (k, v) \<in> set (kafka_conf (KafkaWriter_new stub_CheckString
         (stub_consts\<lparr>Kafka_kafka_conf := [(''client.id'', ''bro''), (''no.such.property'', ''1'')]\<rparr>)
           :: ((string \<times> string) list, string list, string) KafkaWriter))
   \<and> Conf_set (stub_kafka True) c k v = Inl err
   \<and> last (messages w') = Error ''Failed to set '%s'='%s': %s'' [Str k, Str v, Str err]
   \<and> producer w' = producer (KafkaWriter_new stub_CheckString
         (stub_consts\<lparr>Kafka_kafka_conf := [(''client.id'', ''bro''), (''no.such.property'', ''1'')]\<rparr>)
           :: ((string \<times> string) list, string list, string) KafkaWriter)
   \<and> topic w' = topic (KafkaWriter_new stub_CheckString
         (stub_consts\<lparr>Kafka_kafka_conf := [(''client.id'', ''bro''), (''no.such.property'', ''1'')]\<rparr>)
           :: ((string \<times> string) list, string list, string) KafkaWriter)"
  by (rule DoInit_rejected_setting [where key = "''no.such.property''" and val = "''1''"])
    (simp_all add: KafkaWriter_new_def stub_CheckString_def c_str_def NUL_def stub_consts_def
      stub_kafka_def)

text \<open>The same run, evaluated: the message names the rejected entry, both pointers are null.\<close>

lemma stub_DoInit_rejected:
  "DoInit (stub_kafka True)
     (stub_consts\<lparr>Kafka_kafka_conf := [(''client.id'', ''bro''), (''no.such.property'', ''1'')]\<rparr>)
     \<lparr>path = ''conn''\<rparr>
     (KafkaWriter_new stub_CheckString
       (stub_consts\<lparr>Kafka_kafka_conf := [(''client.id'', ''bro''), (''no.such.property'', ''1'')]\<rparr>))
   = (False,
      \<lparr> tag_json = False, topic_name = ''conn'',
        kafka_conf = [(''client.id'', ''bro''), (''no.such.property'', ''1'')],
        formatter = Live (JSON TS_EPOCH), producer = Null, topic = Null,
        conf = Live [(''client.id'', ''bro'')], topic_conf = Dangling,
        messages = [Info ''Debug is turned off.'' [],
                    Error ''Failed to set '%s'='%s': %s''
                      [Str ''no.such.property'', Str ''1'',
                       Str ''No such configuration property'']] \<rparr>)"
  by (simp add: DoInit_def KafkaWriter_new_def stub_CheckString_def c_str_def NUL_def
      stub_consts_def stub_kafka_def Let_def Failed_to_set_def)

text \<open>
  C10: when every setting is accepted and the producer is created but the library
  refuses the topic handle, \<open>DoInit\<close> returns false and leaves the producer pointer
  live and the topic pointer null: nothing made so far is released. The formatter made at
  the start of \<open>DoInit\<close> is live after the call on every path, the failing ones too.
\<close>

theorem DoInit_no_rollback:
  assumes "apply_settings K (Conf_create K CONF_GLOBAL) (kafka_conf w) = (c, None)"
    and "Kafka_debug B = [] \<and> c' = c
         \<or> Kafka_debug B \<noteq> [] \<and> Conf_set K c ''debug'' (Kafka_debug B) = Inr c'"
    and "Producer_create K c' = Inr p"
    and "Topic_create K p (if topic_name w = [] then path info else topic_name w)
           (Conf_create K CONF_TOPIC) = Inl err"
  shows "(\<exists>w'. DoInit K B info w = (False, w') \<and> producer w' = Live p \<and> topic w' = Null
            \<and> is_live (formatter w')
            \<and> last (messages w') = Error ''Failed to create topic handle: %s'' [Str err])
         \<and> (\<forall>B0 info0 w0. is_live (formatter (snd (DoInit K B0 info0 w0))))"
proof
  show "\<exists>w'. DoInit K B info w = (False, w') \<and> producer w' = Live p \<and> topic w' = Null
            \<and> is_live (formatter w')
            \<and> last (messages w') = Error ''Failed to create topic handle: %s'' [Str err]"
    using assms unfolding DoInit_def Let_def
    by (auto split: prod.splits option.splits sum.splits if_splits)
  show "\<forall>B0 info0 w0. is_live (formatter (snd (DoInit K B0 info0 w0)))"
    by (simp add: DoInit_formatter)
qed

theorem DoInit_no_rollback_witness:
  "DoInit (stub_kafka True) stub_consts \<lparr>path = []\<rparr>
     (KafkaWriter_new stub_CheckString stub_consts)
     = (False,
        \<lparr> tag_json = False, topic_name = [],
          kafka_conf = [(''bootstrap.servers'', ''x''), (''client.id'', ''bro'')],
          formatter = Live (JSON TS_EPOCH), producer = Live [], topic = Null,
          conf = Live [(''bootstrap.servers'', ''x''), (''client.id'', ''bro'')],
          topic_conf = Live [],
          messages = [Info ''Debug is turned off.'' [],
                      Error ''Failed to create topic handle: %s'' [Str ''Invalid topic name'']] \<rparr>)"
proof -
  let ?K = "stub_kafka True"
  let ?w = "KafkaWriter_new stub_CheckString stub_consts
              :: ((string \<times> string) list, string list, string) KafkaWriter"
  let ?c = "[(''bootstrap.servers'', ''x''), (''client.id'', ''bro'')]"
  have 1: "apply_settings ?K (Conf_create ?K CONF_GLOBAL) (kafka_conf ?w) = (?c, None)"
    by (simp add: KafkaWriter_new_def stub_CheckString_def c_str_def NUL_def stub_consts_def
        stub_kafka_def)
  have 2: "Kafka_debug stub_consts = [] \<and> ?c = ?c
           \<or> Kafka_debug stub_consts \<noteq> [] \<and> Conf_set ?K ?c ''debug'' (Kafka_debug stub_consts) = Inr ?c"
    by (simp add: stub_consts_def)
  have 3: "Producer_create ?K ?c = Inr []"
    by (simp add: stub_kafka_def)
  have 4: "Topic_create ?K [] (if topic_name ?w = [] then path \<lparr>path = []\<rparr> else topic_name ?w)
             (Conf_create ?K CONF_TOPIC) = Inl ''Invalid topic name''"
    by (simp add: KafkaWriter_new_def stub_CheckString_def c_str_def NUL_def stub_consts_def
        stub_kafka_def)
  from DoInit_no_rollback [OF 1 2 3 4] obtain w' where
    "DoInit ?K stub_consts \<lparr>path = []\<rparr> ?w = (False, w')" and "producer w' = Live []"
    and "topic w' = Null"
    by blast
  then show ?thesis
    by (simp add: DoInit_def KafkaWriter_new_def stub_CheckString_def c_str_def NUL_def
        stub_consts_def stub_kafka_def Let_def)
qed

subsection \<open>DoWrite\<close>

lemma raw_prefix: "take (strlen (buf @ [NUL])) (buf @ [NUL]) = takeWhile (\<lambda>c. c \<noteq> NUL) buf"
proof -
  have "takeWhile (\<lambda>c. c \<noteq> NUL) (buf @ [NUL]) = takeWhile (\<lambda>c. c \<noteq> NUL) buf"
    by (induction buf) simp_all
  moreover have "take (length (takeWhile P xs)) xs = takeWhile P xs" for P and xs :: string
    by (induction xs) simp_all
  ultimately show ?thesis
    unfolding strlen_def by metis
qed

lemma DoWrite_unfold:
  assumes "formatter w = Live fm" and "producer w = Live p" and "topic w = Live t"
  shows "DoWrite K D w vals =
           (case produce K p t (takeWhile (\<lambda>c. c \<noteq> NUL) (D fm vals)) of
              (resp, p') \<Rightarrow>
                if resp = ERR_NO_ERROR
                then Inr (True, w\<lparr>producer := Live (poll K p' 0)\<rparr>)
                else Inr (True, w\<lparr>producer := Live p',
                                 messages := messages w @
                                   [Error ''Kafka send failed: %s'' [Str (err2str K resp)]]\<rparr>))"
  using assms unfolding DoWrite_def Let_def by (simp add: raw_prefix del: take_append)

text \<open>
  C9: when the bytes that the formatter wrote for a record contain a NUL byte, the message
  handed to \<open>produce\<close> is the bytes before the first NUL: it is shorter than the buffer
  and nothing is reported about the bytes left out.
\<close>

theorem DoWrite_truncates_at_NUL:
  assumes "formatter w = Live fm" and "producer w = Live p" and "topic w = Live t"
    and "NUL \<in> set (D fm vals)"
  shows "\<exists>sent. sent = takeWhile (\<lambda>c. c \<noteq> NUL) (D fm vals)
           \<and> length sent < length (D fm vals)
           \<and> NUL \<notin> set sent
           \<and> DoWrite K D w vals =
               (case produce K p t sent of
                  (resp, p') \<Rightarrow>
                    if resp = ERR_NO_ERROR
                    then Inr (True, w\<lparr>producer := Live (poll K p' 0)\<rparr>)
                    else Inr (True, w\<lparr>producer := Live p',
                                     messages := messages w @
                                       [Error ''Kafka send failed: %s'' [Str (err2str K resp)]]\<rparr>))"
proof -
  let ?sent = "takeWhile (\<lambda>c. c \<noteq> NUL) (D fm vals)"
  have "x \<in> set xs \<Longrightarrow> length (takeWhile (\<lambda>c. c \<noteq> x) xs) < length xs" for x :: char and xs
    by (induction xs) auto
  from this [OF assms(4)] have "length ?sent < length (D fm vals)" .
  moreover have "NUL \<notin> set ?sent"
    by (auto dest: set_takeWhileD)
  ultimately show ?thesis
    by (simp add: DoWrite_unfold [OF assms(1-3)])
qed


theorem DoWrite_truncates_at_NUL_witness:
  "DoWrite (stub_kafka False) stub_Describe (stub_writer []) (''ab'' @ [NUL] @ ''cd'')
     = Inr (True, stub_writer [''ab''])"
proof -
  let ?vals = "''ab'' @ [NUL] @ ''cd''"
  have 1: "formatter (stub_writer []) = Live (JSON TS_EPOCH)"
    and 2: "producer (stub_writer []) = Live []"
    and 3: "topic (stub_writer []) = Live ''conn''"
    by (simp_all add: stub_writer_def)
  have 4: "NUL \<in> set (stub_Describe (JSON TS_EPOCH) ?vals)"
    by (simp add: stub_Describe_def)
  from DoWrite_truncates_at_NUL
    [where D = stub_Describe and vals = ?vals and K = "stub_kafka False", OF 1 2 3 4]
  obtain sent where
    "sent = takeWhile (\<lambda>c. c \<noteq> NUL) (stub_Describe (JSON TS_EPOCH) ?vals)"
    and "DoWrite (stub_kafka False) stub_Describe (stub_writer []) ?vals =
           (case produce (stub_kafka False) [] ''conn'' sent of
              (resp, p') \<Rightarrow>
                if resp = ERR_NO_ERROR
                then Inr (True, (stub_writer [])\<lparr>producer := Live (poll (stub_kafka False) p' 0)\<rparr>)
                else Inr (True, (stub_writer [])\<lparr>producer := Live p',
                                 messages := messages (stub_writer []) @
                                   [Error ''Kafka send failed: %s''
                                      [Str (err2str (stub_kafka False) resp)]]\<rparr>))"
    by blast
  then show ?thesis
    by (simp add: stub_Describe_def stub_kafka_def stub_writer_def NUL_def ERR_NO_ERROR_def)
qed

text \<open>
  C4: when \<open>produce\<close> refuses the message, \<open>DoWrite\<close> reports the error with the
  library's text for the code and returns true. It does not poll. Formatter, producer and
  topic stay live, and a later \<open>DoWrite\<close> runs again without a fault and returns true.
\<close>

theorem DoWrite_rejected_submission:
  assumes "formatter w = Live fm" and "producer w = Live p" and "topic w = Live t"
    and "produce K p t (takeWhile (\<lambda>c. c \<noteq> NUL) (D fm vals)) = (resp, p')"
    and "resp \<noteq> ERR_NO_ERROR"
  shows "\<exists>w'. DoWrite K D w vals = Inr (True, w')
           \<and> w' = w\<lparr>producer := Live p',
                    messages := messages w @ [Error ''Kafka send failed: %s'' [Str (err2str K resp)]]\<rparr>
           \<and> is_live (formatter w') \<and> is_live (producer w') \<and> is_live (topic w')
           \<and> (\<forall>vals'. \<exists>w''. DoWrite K D w' vals' = Inr (True, w''))"
proof -
  let ?w' = "w\<lparr>producer := Live p',
               messages := messages w @ [Error ''Kafka send failed: %s'' [Str (err2str K resp)]]\<rparr>"
  have 1: "DoWrite K D w vals = Inr (True, ?w')"
    using DoWrite_unfold [OF assms(1-3), of K D vals] assms(4,5) by simp
  have 2: "formatter ?w' = Live fm" "producer ?w' = Live p'" "topic ?w' = Live t"
    using assms(1-3) by simp_all
  have "\<exists>w''. DoWrite K D ?w' vals' = Inr (True, w'')" for vals'
    unfolding DoWrite_unfold [OF 2] by (simp split: prod.splits)
  with 1 2 show ?thesis by simp
qed


theorem DoWrite_rejected_submission_witness:
  "DoWrite (stub_kafka True) stub_Describe (stub_writer [''m1'', ''m2'']) ''m3''
     = Inr (True, (stub_writer [''m1'', ''m2''])
          \<lparr>messages := [Info ''Debug is turned off.'' [],
                        Error ''Kafka send failed: %s'' [Str ''Local: Queue full'']]\<rparr>)"
proof -
  let ?w = "stub_writer [''m1'', ''m2'']"
  have 1: "formatter ?w = Live (JSON TS_EPOCH)"
    and 2: "producer ?w = Live [''m1'', ''m2'']"
    and 3: "topic ?w = Live ''conn''"
    by (simp_all add: stub_writer_def)
  have 4: "produce (stub_kafka True) [''m1'', ''m2''] ''conn''
             (takeWhile (\<lambda>c. c \<noteq> NUL) (stub_Describe (JSON TS_EPOCH) ''m3''))
           = (- 184, [''m1'', ''m2''])"
    by (simp add: stub_kafka_def)
  have 5: "- 184 \<noteq> ERR_NO_ERROR"
    by (simp add: ERR_NO_ERROR_def)
  from DoWrite_rejected_submission
    [where D = stub_Describe and vals = "''m3''" and K = "stub_kafka True", OF 1 2 3 4 5]
  obtain w' where
    "DoWrite (stub_kafka True) stub_Describe ?w ''m3'' = Inr (True, w')"
    and "w' = ?w\<lparr>producer := Live [''m1'', ''m2''],
                  messages := messages ?w @
                    [Error ''Kafka send failed: %s'' [Str (err2str (stub_kafka True) (- 184))]]\<rparr>"
    by blast
  then show ?thesis
    by (simp add: stub_kafka_def stub_writer_def)
qed

text \<open>After the refused write, a heartbeat delivers a message and the next write is accepted.\<close>

lemma stub_write_after_failure:
  "host_calls (stub_kafka True) stub_Describe (stub_writer [''m1'', ''m2''])
     [Write ''m3'', Heartbeat, Write ''m4'']
   = Inr ((stub_writer [''m4''])
          \<lparr>messages := [Info ''Debug is turned off.'' [],
                        Error ''Kafka send failed: %s'' [Str ''Local: Queue full'']]\<rparr>)"
  by (simp add: DoWrite_def DoHeartbeat_def stub_kafka_def stub_writer_def stub_Describe_def
      strlen_def NUL_def ERR_NO_ERROR_def Let_def)

subsection \<open>DoFlush and DoHeartbeat\<close>

text \<open>
  A run of \<open>DoFlush\<close> and \<open>DoHeartbeat\<close> calls polls the producer once per call, with
  timeout 0, and changes nothing else.
\<close>

lemma flush_heartbeat_calls:
  assumes "producer w = Live p" and "set cs \<subseteq> {Flush, Heartbeat}"
  shows "host_calls K D w cs
           = Inr (w\<lparr>producer := Live (((\<lambda>q. poll K q 0) ^^ length cs) p)\<rparr>)"
  using assms
proof (induction cs arbitrary: w p)
  case Nil
  then have "w\<lparr>producer := Live p\<rparr> = w" by simp
  then show ?case by simp
next
  case (Cons c cs)
  let ?w1 = "w\<lparr>producer := Live (poll K p 0)\<rparr>"
  from Cons.prems have c: "c = Flush \<or> c = Heartbeat" and cs: "set cs \<subseteq> {Flush, Heartbeat}"
    by auto
  from c Cons.prems(1) have step: "host_call K D w c = Inr (True, ?w1)"
    by (auto simp: DoFlush_def DoHeartbeat_def)
  have "producer ?w1 = Live (poll K p 0)" by simp
  from Cons.IH [OF this cs] step funpow_swap1 [of "\<lambda>q. poll K q 0" "length cs" p]
  show ?case by simp
qed

text \<open>
  C8, as the code has it: with a live producer, \<open>DoFlush\<close> and \<open>DoHeartbeat\<close> each
  return true and leave the instance as it was but for one poll of the producer with
  timeout 0; neither can fail. Neither hands a message to the producer: the result is
  the same whatever \<open>produce\<close> would do. The queue is changed by that one poll and by
  nothing else, and any run of such calls polls once per call. The poll itself may take
  messages off the queue.
\<close>

theorem DoFlush_DoHeartbeat_poll_once:
  assumes "producer w = Live p"
  shows "DoFlush K w = Inr (True, w\<lparr>producer := Live (poll K p 0)\<rparr>)
         \<and> DoHeartbeat K w = Inr (True, w\<lparr>producer := Live (poll K p 0)\<rparr>)
         \<and> (\<forall>f. DoFlush (K\<lparr>produce := f\<rparr>) w = DoFlush K w
                \<and> DoHeartbeat (K\<lparr>produce := f\<rparr>) w = DoHeartbeat K w)
         \<and> (\<forall>cs. set cs \<subseteq> {Flush, Heartbeat} \<longrightarrow>
                host_calls K D w cs
                  = Inr (w\<lparr>producer := Live (((\<lambda>q. poll K q 0) ^^ length cs) p)\<rparr>))"
proof -
  have 1: "DoFlush K w = Inr (True, w\<lparr>producer := Live (poll K p 0)\<rparr>)"
    and 2: "DoHeartbeat K w = Inr (True, w\<lparr>producer := Live (poll K p 0)\<rparr>)"
    using assms by (simp_all add: DoFlush_def DoHeartbeat_def)
  have 3: "DoFlush (K\<lparr>produce := f\<rparr>) w = DoFlush K w
           \<and> DoHeartbeat (K\<lparr>produce := f\<rparr>) w = DoHeartbeat K w" for f
    using assms by (simp add: DoFlush_def DoHeartbeat_def)
  from 1 2 3 flush_heartbeat_calls [OF assms, of _ K D] show ?thesis
    by blast
qed

theorem DoFlush_DoHeartbeat_poll_once_witness:
  "DoFlush (stub_kafka False) (stub_writer [''m1'']) = Inr (True, stub_writer [''m1''])
   \<and> DoHeartbeat (stub_kafka False) (stub_writer [''m1'']) = Inr (True, stub_writer [''m1''])
   \<and> host_calls (stub_kafka True) stub_Describe (stub_writer [''m1'', ''m2''])
        [Flush, Heartbeat, Flush] = Inr (stub_writer [])"
proof -
  have p: "producer (stub_writer q) = Live q" for q
    by (simp add: stub_writer_def)
  have "set [Flush, Heartbeat, Flush :: string call] \<subseteq> {Flush, Heartbeat}"
    by simp
  with DoFlush_DoHeartbeat_poll_once [OF p, of "stub_kafka True" "[''m1'', ''m2'']" stub_Describe]
  have "host_calls (stub_kafka True) stub_Describe (stub_writer [''m1'', ''m2''])
          [Flush, Heartbeat, Flush]
        = Inr ((stub_writer [''m1'', ''m2''])
            \<lparr>producer := Live (((\<lambda>q. poll (stub_kafka True) q 0)
                                  ^^ length [Flush, Heartbeat, Flush :: string call])
                                 [''m1'', ''m2''])\<rparr>)"
    by blast
  moreover have "((\<lambda>q. poll (stub_kafka True) q 0) ^^ 3) [''m1'', ''m2''] = []"
    by (simp add: numeral_3_eq_3 stub_kafka_def)
  ultimately have "host_calls (stub_kafka True) stub_Describe (stub_writer [''m1'', ''m2''])
          [Flush, Heartbeat, Flush] = Inr (stub_writer [])"
    by (simp only: list.size length_Cons) (simp add: stub_writer_def numeral_3_eq_3)
  with DoFlush_DoHeartbeat_poll_once [OF p, of "stub_kafka False" "[''m1'']" stub_Describe]
  show ?thesis
    by (simp add: stub_kafka_def stub_writer_def)
qed

text \<open>
  C8, counterexample: the queue does not stay as it was. On the small client, which
  delivers one message per poll, each of the two calls takes the queue of two messages
  to a queue of one.
\<close>

theorem DoFlush_DoHeartbeat_alter_queue:
  "producer (stub_writer [''m1'', ''m2'']) = Live [''m1'', ''m2'']
   \<and> outq_len (stub_kafka True) [''m1'', ''m2''] = 2
   \<and> DoFlush (stub_kafka True) (stub_writer [''m1'', ''m2'']) = Inr (True, stub_writer [''m2''])
   \<and> DoHeartbeat (stub_kafka True) (stub_writer [''m1'', ''m2''])
       = Inr (True, stub_writer [''m2''])
   \<and> producer (stub_writer [''m2'']) = Live [''m2'']
   \<and> outq_len (stub_kafka True) [''m2''] = 1"
  by (simp add: DoFlush_def DoHeartbeat_def stub_kafka_def stub_writer_def)

subsection \<open>The handles between init and finish\<close>

lemma host_call_operational:
  assumes "is_live (formatter w)" and "is_live (producer w)" and "is_live (topic w)"
  shows "\<exists>r w'. host_call K D w c = Inr (r, w')
           \<and> formatter w' = formatter w \<and> topic w' = topic w \<and> is_live (producer w')"
proof -
  from assms obtain fm p t where "formatter w = Live fm" "producer w = Live p" "topic w = Live t"
    by (metis is_live.elims(2))
  then show ?thesis
    by (cases c) (auto simp: DoWrite_def DoFlush_def DoHeartbeat_def DoSetBuf_def DoRotate_def
        Let_def split: prod.splits)
qed

lemma host_calls_operational:
  assumes "is_live (formatter w)" and "is_live (producer w)" and "is_live (topic w)"
  shows "\<exists>w'. host_calls K D w cs = Inr w'
           \<and> formatter w' = formatter w \<and> topic w' = topic w \<and> is_live (producer w')"
  using assms
proof (induction cs arbitrary: w)
  case Nil
  then show ?case by simp
next
  case (Cons c cs)
  from host_call_operational [OF Cons.prems, of K D c] obtain r w1 where
    1: "host_call K D w c = Inr (r, w1)" "formatter w1 = formatter w" "topic w1 = topic w"
       "is_live (producer w1)"
    by blast
  with Cons.prems have "is_live (formatter w1)" "is_live (producer w1)" "is_live (topic w1)"
    by simp_all
  from Cons.IH [OF this] 1 show ?case by auto
qed

text \<open>
  C6: when \<open>DoInit\<close> returns true, the producer and the topic pointer are live, and
  they stay so through every sequence of \<open>DoWrite\<close>, \<open>DoSetBuf\<close>, \<open>DoFlush\<close>,
  \<open>DoRotate\<close> and \<open>DoHeartbeat\<close> calls that follows: none of these calls faults, the
  topic handle is never replaced, and the producer is never deleted.
\<close>

theorem DoInit_success_handles:
  assumes "DoInit K B info w = (True, w')"
  shows "is_live (producer w') \<and> is_live (topic w')
         \<and> (\<forall>cs. \<exists>w''. host_calls K D w' cs = Inr w''
                \<and> is_live (producer w'') \<and> topic w'' = topic w')"
proof -
  from DoInit_success [OF assms] have 1: "is_live (producer w')" "is_live (topic w')"
    by auto
  from DoInit_formatter [of K B info w] assms have 2: "is_live (formatter w')"
    by simp
  from host_calls_operational [OF 2 1, of K D] 1 show ?thesis
    by blast
qed


theorem DoInit_success_handles_witness:
  "is_live (producer (stub_writer [])) \<and> is_live (topic (stub_writer []))
   \<and> (\<forall>cs. \<exists>w''. host_calls (stub_kafka True) stub_Describe (stub_writer []) cs = Inr w''
          \<and> is_live (producer w'') \<and> topic w'' = topic (stub_writer []))"
  by (rule DoInit_success_handles [OF stub_DoInit])

subsection \<open>DoFinish\<close>

lemma DoFinish_loop_exit:
  assumes "\<not> (0 < outq_len K p \<and> waited \<le>s max_wait)"
  shows "DoFinish_loop K max_wait p waited = Some (p, waited)"
  by (subst DoFinish_loop.simps) (rule if_not_P [OF assms])

lemma DoFinish_loop_step:
  assumes "0 < outq_len K p" and "waited \<le>s max_wait"
  shows "DoFinish_loop K max_wait p waited =
           DoFinish_loop K max_wait (poll K p 1000) (waited + 1000)"
  using assms by (subst DoFinish_loop.simps) (simp add: poll_interval_def)

text \<open>Below \<open>INT_MAX - 1000\<close> the addition to \<open>waited\<close> does not overflow.\<close>

lemma sint_add_1000:
  fixes waited :: c_int
  assumes "sint waited \<le> 2147482647"
  shows "sint (waited + 1000) = sint waited + 1000"
proof -
  have "- (2 ^ 31) \<le> sint waited" using sint_ge [of waited] by simp
  with assms show ?thesis
    by (simp add: sint_word_add signed_take_bit_int_eq_self_iff)
qed

text \<open>
  When \<open>max_wait\<close> is at most \<open>INT_MAX - 1000\<close> the loop exits, whatever the producer
  does, and \<open>waited\<close> ends at most one interval above \<open>max_wait\<close>.
\<close>

lemma DoFinish_loop_returns:
  assumes "sint max_wait \<le> 2147482647"
  shows "\<exists>p' waited'. DoFinish_loop K max_wait p waited = Some (p', waited')
           \<and> sint waited' \<le> max (sint waited) (sint max_wait + 1000)"
proof (induction "nat (sint max_wait + 1 - sint waited)" arbitrary: p waited rule: less_induct)
  case less
  show ?case
  proof (cases "0 < outq_len K p \<and> waited \<le>s max_wait")
    case False
    then show ?thesis using DoFinish_loop_exit [of K p waited max_wait] by simp
  next
    case True
    then have le: "sint waited \<le> sint max_wait" by (simp add: word_sle_eq)
    with assms have add: "sint (waited + 1000) = sint waited + 1000"
      by (intro sint_add_1000) simp
    with le have "nat (sint max_wait + 1 - sint (waited + 1000)) < nat (sint max_wait + 1 - sint waited)"
      by simp
    from less [OF this, of "poll K p 1000"] obtain p' waited' where
      "DoFinish_loop K max_wait (poll K p 1000) (waited + 1000) = Some (p', waited')"
      and "sint waited' \<le> max (sint (waited + 1000)) (sint max_wait + 1000)"
      by blast
    with DoFinish_loop_step [of K p waited max_wait] True add le show ?thesis
      by simp
  qed
qed

text \<open>
  With \<open>max_wait = INT_MAX\<close> the test \<open>waited <= max_wait\<close> holds for every value of
  \<open>waited\<close>, also after the addition has wrapped around: when the queue is not empty
  after any number of polls, the loop runs forever.
\<close>

lemma DoFinish_loop_never_exits:
  fixes K :: "('c, 'p, 't) RdKafka"
  assumes "\<And>n. 0 < outq_len K (((\<lambda>q. poll K q 1000) ^^ n) p)"
  shows "DoFinish_loop K 2147483647 p waited = None"
proof (rule ccontr)
  assume "DoFinish_loop K 2147483647 p waited \<noteq> None"
  then obtain y where y: "DoFinish_loop K 2147483647 p waited = Some y" by auto
  have top: "v \<le>s 2147483647" for v :: c_int
    using sint_lt [of v] by (simp add: word_sle_eq)
  have "max_wait = 2147483647 \<and> (\<forall>n. 0 < outq_len K (((\<lambda>q. poll K q 1000) ^^ n) p))
          \<longrightarrow> False"
    if "DoFinish_loop K max_wait p waited = Some y" for max_wait
    using that
  proof (rule DoFinish_loop.raw_induct
      [where P = "\<lambda>K max_wait p waited y.
                    max_wait = 2147483647 \<and> (\<forall>n. 0 < outq_len K (((\<lambda>q. poll K q 1000) ^^ n) p))
                      \<longrightarrow> False",
        rotated])
    fix loop :: "('c, 'p, 't) RdKafka \<Rightarrow> c_int \<Rightarrow> 'p \<Rightarrow> c_int \<Rightarrow> ('p \<times> c_int) option"
      and K max_wait p waited y
    assume IH: "\<And>K max_wait p waited y. loop K max_wait p waited = Some y \<Longrightarrow>
                  max_wait = 2147483647 \<and> (\<forall>n. 0 < outq_len K (((\<lambda>q. poll K q 1000) ^^ n) p))
                    \<longrightarrow> False"
      and body: "(if 0 < outq_len K p \<and> waited \<le>s max_wait
                  then loop K max_wait (poll K p (sint poll_interval)) (waited + poll_interval)
                  else Some (p, waited)) = Some y"
    show "max_wait = 2147483647 \<and> (\<forall>n. 0 < outq_len K (((\<lambda>q. poll K q 1000) ^^ n) p))
            \<longrightarrow> False"
    proof
      assume a: "max_wait = 2147483647 \<and> (\<forall>n. 0 < outq_len K (((\<lambda>q. poll K q 1000) ^^ n) p))"
      then have "0 < outq_len K (((\<lambda>q. poll K q 1000) ^^ 0) p)" by blast
      then have "0 < outq_len K p" by simp
      with a body top [of waited]
      have run: "loop K max_wait (poll K p 1000) (waited + poll_interval) = Some y"
        by (simp add: poll_interval_def)
      have "0 < outq_len K (((\<lambda>q. poll K q 1000) ^^ n) (poll K p 1000))" for n
        using a [THEN conjunct2, rule_format, of "Suc n"]
          funpow_swap1 [of "\<lambda>q. poll K q 1000" n p]
        by simp
      with IH [OF run] a show False by simp
    qed
  qed
  from this [OF y] assms show False by simp
qed

text \<open>
  \<open>max_wait_on_shutdown = 2000\<close> and a queue that is not empty before any of the three
  polls: three polls of 1000 ms, and the loop exits with \<open>waited = 3000\<close>.
\<close>

lemma DoFinish_loop_2000:
  assumes "0 < outq_len K p" and "0 < outq_len K (poll K p 1000)"
    and "0 < outq_len K (poll K (poll K p 1000) 1000)"
  shows "DoFinish_loop K 2000 p 0 = Some (poll K (poll K (poll K p 1000) 1000) 1000, 3000)"
proof -
  have "DoFinish_loop K 2000 p 0 = DoFinish_loop K 2000 (poll K p 1000) 1000"
    using DoFinish_loop_step [of K p 0 2000] assms(1) by (simp add: word_sle_eq)
  also have "\<dots> = DoFinish_loop K 2000 (poll K (poll K p 1000) 1000) 2000"
    using DoFinish_loop_step [of K "poll K p 1000" 1000 2000] assms(2) by (simp add: word_sle_eq)
  also have "\<dots> = DoFinish_loop K 2000 (poll K (poll K (poll K p 1000) 1000) 1000) 3000"
    using DoFinish_loop_step [of K "poll K (poll K p 1000) 1000" 2000 2000] assms(3)
    by (simp add: word_sle_eq)
  also have "\<dots> = Some (poll K (poll K (poll K p 1000) 1000) 1000, 3000)"
    using DoFinish_loop_exit [of K "poll K (poll K (poll K p 1000) 1000) 1000" 3000 2000]
    by (simp add: word_sle_eq)
  finally show ?thesis .
qed

lemma stub_loop_stuck:
  "DoFinish_loop (stub_kafka False) 2000 [''m1''] 0 = Some ([''m1''], 3000)"
  using DoFinish_loop_2000 [of "stub_kafka False" "[''m1'']"]
  by (simp add: stub_kafka_def)

lemma stub_loop_drains:
  "DoFinish_loop (stub_kafka True) 2000 [''m1'', ''m2''] 0 = Some ([], 2000)"
proof -
  let ?K = "stub_kafka True"
  have "DoFinish_loop ?K 2000 [''m1'', ''m2''] 0 = DoFinish_loop ?K 2000 [''m2''] 1000"
    using DoFinish_loop_step [of ?K "[''m1'', ''m2'']" 0 2000]
    by (simp add: word_sle_eq stub_kafka_def)
  also have "\<dots> = DoFinish_loop ?K 2000 [] 2000"
    using DoFinish_loop_step [of ?K "[''m2'']" 1000 2000]
    by (simp add: word_sle_eq stub_kafka_def)
  also have "\<dots> = Some ([], 2000)"
    using DoFinish_loop_exit [of ?K "[]" 2000 2000]
    by (simp add: stub_kafka_def)
  finally show ?thesis .
qed

lemma stub_max_wait: "word_of_int (Kafka_max_wait_on_shutdown stub_consts) = (2000 :: c_int)"
  by (simp add: stub_consts_def)

lemma stub_writer_live:
  "is_live (topic (stub_writer q))" "is_live (formatter (stub_writer q))"
  "producer (stub_writer q) = Live q"
  by (simp_all add: stub_writer_def)

text \<open>The two runs in full: the queue drains within the bound, and it never drains.\<close>

lemma stub_DoFinish_drains:
  "DoFinish (stub_kafka True) stub_consts (stub_writer [''m1'', ''m2''])
     = Some (Inr (True, (stub_writer [])
          \<lparr>formatter := Dangling, producer := Dangling, topic := Dangling\<rparr>))"
  apply (simp only: DoFinish_def Let_def stub_max_wait stub_writer_live deref.simps sum.case
      stub_loop_drains option.case prod.case)
  apply (simp add: stub_writer_def stub_kafka_def)
  done

lemma stub_DoFinish_stuck:
  "DoFinish (stub_kafka False) stub_consts (stub_writer [''m1''])
     = Some (Inr (False, (stub_writer [''m1''])
          \<lparr>formatter := Dangling, producer := Dangling, topic := Dangling,
            messages := [Info ''Debug is turned off.'' [],
                         Error ''Unable to deliver %0d message(s)'' [Dec 1]]\<rparr>))"
  apply (simp only: DoFinish_def Let_def stub_max_wait stub_writer_live deref.simps sum.case
      stub_loop_stuck option.case prod.case)
  apply (simp add: stub_writer_def stub_kafka_def)
  done

text \<open>
  C1: \<open>DoFinish\<close> on an instance whose producer, topic and formatter are live.
  When the bound, narrowed to \<open>int\<close>, is at most \<open>INT_MAX - 1000\<close>, the call returns,
  whatever the producer does: the drain loop ends with the producer in some state
  \<open>p'\<close>, the result is true exactly when the queue of \<open>p'\<close> is empty, and in both cases
  topic, producer and formatter have been deleted. For any bound, whenever the drain
  loop ends, in state \<open>p'\<close>, the call returns in the same way.
\<close>

theorem DoFinish_success_iff_drained:
  assumes "producer w = Live p" and "is_live (topic w)" and "is_live (formatter w)"
  shows "(sint (word_of_int (Kafka_max_wait_on_shutdown B) :: c_int) \<le> 2147482647 \<longrightarrow>
            (\<exists>p' waited w'.
               DoFinish_loop K (word_of_int (Kafka_max_wait_on_shutdown B)) p 0 = Some (p', waited)
             \<and> DoFinish K B w = Some (Inr (outq_len K p' = 0, w'))
             \<and> topic w' = Dangling \<and> producer w' = Dangling \<and> formatter w' = Dangling))
         \<and> (\<forall>p' waited.
               DoFinish_loop K (word_of_int (Kafka_max_wait_on_shutdown B)) p 0 = Some (p', waited)
               \<longrightarrow> (\<exists>w'. DoFinish K B w = Some (Inr (outq_len K p' = 0, w'))
                      \<and> topic w' = Dangling \<and> producer w' = Dangling
                      \<and> formatter w' = Dangling))"
proof -
  let ?mw = "word_of_int (Kafka_max_wait_on_shutdown B) :: c_int"
  from assms(2,3) obtain t fm where live: "topic w = Live t" "formatter w = Live fm"
    by (metis is_live.elims(2))
  have ends: "\<exists>w'. DoFinish K B w = Some (Inr (outq_len K p' = 0, w'))
                \<and> topic w' = Dangling \<and> producer w' = Dangling \<and> formatter w' = Dangling"
    if "DoFinish_loop K ?mw p 0 = Some (p', waited)" for p' waited
    using that assms(1) live unfolding DoFinish_def Let_def by simp
  have "\<exists>p' waited w'.
          DoFinish_loop K ?mw p 0 = Some (p', waited)
        \<and> DoFinish K B w = Some (Inr (outq_len K p' = 0, w'))
        \<and> topic w' = Dangling \<and> producer w' = Dangling \<and> formatter w' = Dangling"
    if "sint ?mw \<le> 2147482647"
  proof -
    from DoFinish_loop_returns [OF that, of K p 0] obtain p' waited where
      loop: "DoFinish_loop K ?mw p 0 = Some (p', waited)"
      by blast
    from ends [OF loop] loop show ?thesis by blast
  qed
  with ends show ?thesis by blast
qed

theorem DoFinish_success_iff_drained_witness:
  "(\<exists>w'. DoFinish (stub_kafka True) stub_consts (stub_writer [''m1'', ''m2''])
            = Some (Inr (True, w'))
          \<and> topic w' = Dangling \<and> producer w' = Dangling \<and> formatter w' = Dangling)
   \<and> (\<exists>w'. DoFinish (stub_kafka False) stub_consts (stub_writer [''m1''])
            = Some (Inr (False, w'))
          \<and> topic w' = Dangling \<and> producer w' = Dangling \<and> formatter w' = Dangling)"
proof
  have bound: "sint (word_of_int (Kafka_max_wait_on_shutdown stub_consts) :: c_int) \<le> 2147482647"
    by (simp add: stub_max_wait)
  from DoFinish_success_iff_drained
    [where K = "stub_kafka True" and B = stub_consts,
      OF stub_writer_live(3) stub_writer_live(1,2), THEN conjunct1, rule_format, OF bound]
  obtain p' waited w' where
    loop: "DoFinish_loop (stub_kafka True) (word_of_int (Kafka_max_wait_on_shutdown stub_consts))
       [''m1'', ''m2''] 0 = Some (p', waited)"
    and fin: "DoFinish (stub_kafka True) stub_consts (stub_writer [''m1'', ''m2''])
           = Some (Inr (outq_len (stub_kafka True) p' = 0, w'))"
    and del: "topic w' = Dangling" "producer w' = Dangling" "formatter w' = Dangling"
    by blast
  from loop have "p' = []"
    by (simp add: stub_max_wait stub_loop_drains)
  moreover have "outq_len (stub_kafka True) [] = 0"
    by (simp add: stub_kafka_def)
  ultimately show "\<exists>w'. DoFinish (stub_kafka True) stub_consts (stub_writer [''m1'', ''m2''])
            = Some (Inr (True, w'))
          \<and> topic w' = Dangling \<and> producer w' = Dangling \<and> formatter w' = Dangling"
    using fin del by simp
next
  have bound: "sint (word_of_int (Kafka_max_wait_on_shutdown stub_consts) :: c_int) \<le> 2147482647"
    by (simp add: stub_max_wait)
  from DoFinish_success_iff_drained
    [where K = "stub_kafka False" and B = stub_consts,
      OF stub_writer_live(3) stub_writer_live(1,2), THEN conjunct1, rule_format, OF bound]
  obtain p' waited w' where
    loop: "DoFinish_loop (stub_kafka False) (word_of_int (Kafka_max_wait_on_shutdown stub_consts))
       [''m1''] 0 = Some (p', waited)"
    and fin: "DoFinish (stub_kafka False) stub_consts (stub_writer [''m1''])
           = Some (Inr (outq_len (stub_kafka False) p' = 0, w'))"
    and del: "topic w' = Dangling" "producer w' = Dangling" "formatter w' = Dangling"
    by blast
  from loop have "p' = [''m1'']"
    by (simp add: stub_max_wait stub_loop_stuck)
  moreover have "outq_len (stub_kafka False) [''m1''] \<noteq> 0"
    by (simp add: stub_kafka_def)
  ultimately show "\<exists>w'. DoFinish (stub_kafka False) stub_consts (stub_writer [''m1''])
            = Some (Inr (False, w'))
          \<and> topic w' = Dangling \<and> producer w' = Dangling \<and> formatter w' = Dangling"
    using fin del by simp
qed

text \<open>
  C5: the drain loop does not always end. With \<open>max_wait_on_shutdown = 2147483647\<close> and
  a producer whose one queued message is never delivered, \<open>waited\<close> reaches 2147483000
  after 2147483 polls, the next addition of 1000 wraps around to a negative value, the
  test \<open>waited <= max_wait\<close> stays true, and \<open>DoFinish\<close> never returns. For bounds up to
  \<open>INT_MAX - 1000\<close> the loop ends (\<open>DoFinish_loop_returns\<close>), and with the bound 2000
  it ends after three polls and \<open>DoFinish\<close> returns false (\<open>stub_DoFinish_stuck\<close>).
\<close>

theorem DoFinish_never_returns_at_INT_MAX:
  "DoFinish (stub_kafka False) (stub_consts\<lparr>Kafka_max_wait_on_shutdown := 2147483647\<rparr>)
     (stub_writer [''m1'']) = None"
proof -
  have "((\<lambda>q. poll (stub_kafka False) q 1000) ^^ n) [''m1''] = [''m1'']" for n
    by (induction n) (simp_all add: stub_kafka_def)
  then have "0 < outq_len (stub_kafka False) (((\<lambda>q. poll (stub_kafka False) q 1000) ^^ n) [''m1''])"
    for n
    by (simp add: stub_kafka_def)
  then have "DoFinish_loop (stub_kafka False) 2147483647 [''m1''] 0 = None"
    by (rule DoFinish_loop_never_exits)
  then show ?thesis
    by (simp add: DoFinish_def stub_consts_def stub_writer_def)
qed

subsection \<open>The shared store after construction\<close>

lemma stub_loop_bound_0:
  "DoFinish_loop (stub_kafka True) 0 [''m1'', ''m2''] 0 = Some ([''m2''], 1000)"
proof -
  let ?K = "stub_kafka True"
  have "DoFinish_loop ?K 0 [''m1'', ''m2''] 0 = DoFinish_loop ?K 0 [''m2''] 1000"
    using DoFinish_loop_step [of ?K "[''m1'', ''m2'']" 0 0]
    by (simp add: word_sle_eq stub_kafka_def)
  also have "\<dots> = Some ([''m2''], 1000)"
    using DoFinish_loop_exit [of ?K "[''m2'']" 1000 0]
    by (simp add: word_sle_eq)
  finally show ?thesis .
qed

lemma stub_DoFinish_bound_0:
  "DoFinish (stub_kafka True) (stub_consts\<lparr>Kafka_max_wait_on_shutdown := 0\<rparr>)
     (stub_writer [''m1'', ''m2''])
     = Some (Inr (False, (stub_writer [''m2''])
          \<lparr>formatter := Dangling, producer := Dangling, topic := Dangling,
            messages := [Info ''Debug is turned off.'' [],
                         Error ''Unable to deliver %0d message(s)'' [Dec 1]]\<rparr>))"
proof -
  have "word_of_int (Kafka_max_wait_on_shutdown (stub_consts\<lparr>Kafka_max_wait_on_shutdown := 0\<rparr>))
          = (0 :: c_int)"
    by simp
  then show ?thesis
    apply (simp only: DoFinish_def Let_def stub_writer_live deref.simps sum.case
        stub_loop_bound_0 option.case prod.case)
    apply (simp add: stub_writer_def stub_kafka_def)
    done
qed

text \<open>
  C3: the constructor copies \<open>tag_json\<close>, \<open>topic_name\<close> and \<open>kafka_conf\<close>, but the
  later methods read the shared store again. Two instances are made from the same store
  (tagging off, debug off, bound 2000). \<open>DoInit\<close> with the store unchanged makes the
  plain formatter and applies no \<open>debug\<close> property; with the tagging flag set meanwhile
  it makes the tagged formatter, though the instance's own copy of the flag is false;
  with the debug string set meanwhile it applies it to the configuration. \<open>DoFinish\<close>
  with two queued messages succeeds under the bound 2000 and fails when the bound has
  been set to 0 meanwhile.
\<close>

theorem shared_store_read_after_construction:
  "tag_json (KafkaWriter_new stub_CheckString stub_consts
             :: ((string \<times> string) list, string list, string) KafkaWriter) = False
   \<and> formatter (snd (DoInit (stub_kafka True) stub_consts \<lparr>path = ''conn''\<rparr>
                       (KafkaWriter_new stub_CheckString stub_consts)))
       = Live (JSON TS_EPOCH)
   \<and> formatter (snd (DoInit (stub_kafka True) (stub_consts\<lparr>Kafka_tag_json := True\<rparr>)
                       \<lparr>path = ''conn''\<rparr> (KafkaWriter_new stub_CheckString stub_consts)))
       = Live (TaggedJSON ''conn'' TS_EPOCH)
   \<and> conf (snd (DoInit (stub_kafka True) stub_consts \<lparr>path = ''conn''\<rparr>
                  (KafkaWriter_new stub_CheckString stub_consts)))
       = Live [(''bootstrap.servers'', ''x''), (''client.id'', ''bro'')]
   \<and> conf (snd (DoInit (stub_kafka True) (stub_consts\<lparr>Kafka_debug := ''all''\<rparr>)
                  \<lparr>path = ''conn''\<rparr> (KafkaWriter_new stub_CheckString stub_consts)))
       = Live [(''bootstrap.servers'', ''x''), (''client.id'', ''bro''), (''debug'', ''all'')]
   \<and> map_option (map_sum id fst)
        (DoFinish (stub_kafka True) stub_consts (stub_writer [''m1'', ''m2'']))
       = Some (Inr True)
   \<and> map_option (map_sum id fst)
        (DoFinish (stub_kafka True) (stub_consts\<lparr>Kafka_max_wait_on_shutdown := 0\<rparr>)
           (stub_writer [''m1'', ''m2'']))
       = Some (Inr False)"
proof -
  have 1: "tag_json (KafkaWriter_new stub_CheckString stub_consts
             :: ((string \<times> string) list, string list, string) KafkaWriter) = False"
    by (simp add: KafkaWriter_new_def stub_CheckString_def c_str_def NUL_def stub_consts_def)
  have 2: "formatter (snd (DoInit (stub_kafka True) stub_consts \<lparr>path = ''conn''\<rparr>
                       (KafkaWriter_new stub_CheckString stub_consts)))
       = Live (JSON TS_EPOCH)"
    by (simp add: DoInit_formatter stub_consts_def)
  have 3: "formatter (snd (DoInit (stub_kafka True) (stub_consts\<lparr>Kafka_tag_json := True\<rparr>)
                       \<lparr>path = ''conn''\<rparr> (KafkaWriter_new stub_CheckString stub_consts)))
       = Live (TaggedJSON ''conn'' TS_EPOCH)"
    by (simp add: DoInit_formatter)
  have 4: "conf (snd (DoInit (stub_kafka True) stub_consts \<lparr>path = ''conn''\<rparr>
                  (KafkaWriter_new stub_CheckString stub_consts)))
       = Live [(''bootstrap.servers'', ''x''), (''client.id'', ''bro'')]"
    by (simp add: stub_DoInit stub_writer_def)
  have 5: "conf (snd (DoInit (stub_kafka True) (stub_consts\<lparr>Kafka_debug := ''all''\<rparr>)
                  \<lparr>path = ''conn''\<rparr> (KafkaWriter_new stub_CheckString stub_consts)))
       = Live [(''bootstrap.servers'', ''x''), (''client.id'', ''bro''), (''debug'', ''all'')]"
    by (simp add: DoInit_def KafkaWriter_new_def stub_CheckString_def c_str_def NUL_def
        stub_consts_def stub_kafka_def Let_def)
  have 6: "map_option (map_sum id fst)
        (DoFinish (stub_kafka True) stub_consts (stub_writer [''m1'', ''m2'']))
       = Some (Inr True)"
    by (simp add: stub_DoFinish_drains)
  have 7: "map_option (map_sum id fst)
        (DoFinish (stub_kafka True) (stub_consts\<lparr>Kafka_max_wait_on_shutdown := 0\<rparr>)
           (stub_writer [''m1'', ''m2'']))
       = Some (Inr False)"
    by (simp add: stub_DoFinish_bound_0)
  from 1 2 3 4 5 6 7 show ?thesis by blast
qed

end
